theory Spec2Isabelle
  imports Complex_Main "HOL-Library.Word"
begin

section \<open>The function template \<open>max\<close> of \<open>basics/maxdecltype.hpp\<close>\<close>

text \<open>
  The whole source is one function template:
  \<^verbatim>\<open>
  template<typename T1, typename T2>
  auto max (T1 a, T2 b) -> decltype(b < a ? a : b)
  {
    // if b < a then yield a else b
    return b < a ? a : b;
  }
  \<close>
  The template takes everything it does from its type arguments: the copies of the
  arguments into the parameters \<open>a\<close> and \<open>b\<close>, the comparison \<open>b < a\<close> between a \<open>T2\<close>
  and a \<open>T1\<close>, the type of the conditional expression, which is the return type, and
  the conversion of the selected operand to it.
\<close>

subsection \<open>Operations that can fail and act on the outside\<close>

text \<open>
  The operations of \<open>T1\<close> and \<open>T2\<close> are built in or are functions of the program that
  uses the template. Such an operation can end in an exception, and it can change state
  outside of its operands: a global, a stream, the floating-point status flags. An
  operation is a function from the outside state before it to an error, or to its
  result and the outside state after it. What the state is after an exception is not
  followed.
\<close>

datatype error = OutOfLifetime | Thrown

type_synonym ('w, 'x) effect = "'w \<Rightarrow> error + 'x \<times> 'w"

definition and_then :: "error + 'x \<Rightarrow> ('x \<Rightarrow> error + 'y) \<Rightarrow> error + 'y" where
  "and_then m k = (case m of Inl e \<Rightarrow> Inl e | Inr x \<Rightarrow> k x)"

definition pure_effect :: "'x \<Rightarrow> ('w, 'x) effect" where
  "pure_effect x w = Inr (x, w)"

subsection \<open>The body\<close>

text \<open>
  \<open>return b < a ? a : b;\<close> evaluates the comparison, with the second operand first as
  the source writes it, and then converts the operand it selects, and only that one, to
  the type of the result. The arguments are, in this order: the comparison, the
  conversion of \<open>a\<close>, the conversion of \<open>b\<close>.
\<close>

definition max_body ::
  "('b \<Rightarrow> 'a \<Rightarrow> ('w, bool) effect) \<Rightarrow> ('a \<Rightarrow> ('w, 'c) effect) \<Rightarrow> ('b \<Rightarrow> ('w, 'c) effect) \<Rightarrow>
   'a \<Rightarrow> 'b \<Rightarrow> ('w, 'c) effect" where
  "max_body lt conv_a conv_b a b w =
     and_then (lt b a w) (\<lambda>(c, w'). if c then conv_a a w' else conv_b b w')"

text \<open>
  The body for operations that are functions of their operands, which neither fail nor
  act on the outside. The name carries the file's suffix because \<open>max\<close> is a constant
  of HOL.
\<close>

definition max_decltype ::
  "('b \<Rightarrow> 'a \<Rightarrow> bool) \<Rightarrow> ('a \<Rightarrow> 'c) \<Rightarrow> ('b \<Rightarrow> 'c) \<Rightarrow> 'a \<Rightarrow> 'b \<Rightarrow> 'c" where
  "max_decltype lt conv_a conv_b a b = (if lt b a then conv_a a else conv_b b)"

subsection \<open>The built-in operand types of the examples\<close>

text \<open>
  \<open>int\<close> is a 32-bit two's complement integer, compared by its signed value. The
  template does no arithmetic, so no operation on it can overflow.
\<close>

type_synonym cint = "32 word"

definition int_less :: "cint \<Rightarrow> cint \<Rightarrow> bool" where
  "int_less x y \<longleftrightarrow> sint x < sint y"

text \<open>
  \<open>double\<close>: a finite value is given by the rational number it denotes (every finite
  binary64 value is one; the two zeros are not told apart); the infinities and
  not-a-number are values of their own. The comparison is the one of IEEE 754: it is
  false as soon as one operand is not a number.
\<close>

datatype double = Finite rat | PlusInf | MinusInf | NaN

fun double_less :: "double \<Rightarrow> double \<Rightarrow> bool" where
  "double_less (Finite x) (Finite y) = (x < y)"
| "double_less (Finite x) PlusInf = True"
| "double_less MinusInf (Finite y) = True"
| "double_less MinusInf PlusInf = True"
| "double_less _ _ = False"

text \<open>
  The conversion of an \<open>int\<close> to \<open>double\<close> is exact: 32 bits fit into the 53 bits of
  the significand.
\<close>

definition int_to_double :: "cint \<Rightarrow> double" where
  "int_to_double i = Finite (of_int (sint i))"

text \<open>
  \<open>b < a\<close> for a \<open>double\<close> b and an \<open>int\<close> a: the usual arithmetic conversions turn
  \<open>a\<close> into a \<open>double\<close> before the comparison.
\<close>

definition less_double_int :: "double \<Rightarrow> cint \<Rightarrow> bool" where
  "less_double_int b a = double_less b (int_to_double a)"

text \<open>
  The literals of the mixed-type examples. \<open>2.5\<close> is a binary64 value. \<open>7.2\<close> is not:
  the literal denotes the nearest one, \<open>8106479329266893 / 2 ^ 50\<close>
  (bit pattern \<open>401CCCCCCCCCCCCD\<close>).
\<close>

definition lit_7_2 :: double where
  "lit_7_2 = Finite (8106479329266893 / 2 ^ 50)"

definition lit_2_5 :: double where
  "lit_2_5 = Finite (5 / 2)"

definition lit_9_0 :: double where
  "lit_9_0 = Finite 9"

section \<open>Instantiation and calls\<close>

subsection \<open>The deduced return type\<close>

text \<open>
  The return type is \<open>decltype(b < a ? a : b)\<close>. Three rules of the language give it.
  An expression has a type and a value category; types are given by their names, of
  any type \<open>'t\<close>.
  \<^item> A parameter named in an expression is an lvalue of its type. \<open>T1\<close> and \<open>T2\<close> are
    the types of parameters passed by value: object types, as the deduction from the
    arguments of a call gives them. Reference types given as explicit template
    arguments are outside of this development.
  \<^item> The conditional expression: when its second and third operand are lvalues of one
    type, it is an lvalue of that type. When they have one type otherwise, it is a
    prvalue of that type. When their types differ, the conversions between the two
    types decide, and they are an argument: the usual arithmetic conversions give a
    prvalue of the common type, an lvalue of a class and one of its base give an lvalue
    of the base, and where no conversion applies the expression has no type.
  \<^item> \<open>decltype\<close> of an expression that is not a plain name is \<open>T&\<close> for an lvalue of
    type \<open>T\<close>, and \<open>T\<close> for a prvalue of type \<open>T\<close>.
\<close>

datatype category = Lvalue | Prvalue

type_synonym 't expr_type = "'t \<times> category"

definition param_expr :: "'t \<Rightarrow> 't expr_type" where
  "param_expr T = (T, Lvalue)"

definition cond_type ::
  "('t expr_type \<Rightarrow> 't expr_type \<Rightarrow> 't expr_type option) \<Rightarrow>
   't expr_type \<Rightarrow> 't expr_type \<Rightarrow> 't expr_type option" where
  "cond_type conv e2 e3 =
     (if fst e2 = fst e3 then
        (if snd e2 = Lvalue \<and> snd e3 = Lvalue then Some (fst e2, Lvalue)
         else Some (fst e2, Prvalue))
      else conv e2 e3)"

datatype 't return_type = ByValue 't | LvalueRef 't

fun decltype :: "'t expr_type \<Rightarrow> 't return_type" where
  "decltype (T, Lvalue) = LvalueRef T"
| "decltype (T, Prvalue) = ByValue T"

text \<open>\<open>decltype(b < a ? a : b)\<close> for \<open>T1 a\<close> and \<open>T2 b\<close>.\<close>

definition decltype_cond ::
  "('t expr_type \<Rightarrow> 't expr_type \<Rightarrow> 't expr_type option) \<Rightarrow> 't \<Rightarrow> 't \<Rightarrow> 't return_type option" where
  "decltype_cond conv T1 T2 =
     map_option decltype (cond_type conv (param_expr T1) (param_expr T2))"

subsection \<open>Objects and their lifetime\<close>

text \<open>
  The state of a program: its objects and the outside state. Every object that was
  ever created has a place in the list, and its address is its position; the place
  holds the value of the object while the object is alive, and nothing once it has been
  destroyed. Addresses are not used again, so that a reference to a destroyed object
  never refers to a later one. An access through an address at which no object is
  alive has no defined behaviour: it is the error \<open>OutOfLifetime\<close>.
\<close>

record ('v, 'w) state =
  objs :: "'v option list"
  world :: 'w

definition load :: "('v, 'w) state \<Rightarrow> nat \<Rightarrow> error + 'v" where
  "load st p =
     (if p < length (objs st) then
        (case objs st ! p of None \<Rightarrow> Inl OutOfLifetime | Some v \<Rightarrow> Inr v)
      else Inl OutOfLifetime)"

definition create :: "'v \<Rightarrow> ('v, 'w) state \<Rightarrow> nat \<times> ('v, 'w) state" where
  "create v st = (length (objs st), st\<lparr>objs := objs st @ [Some v]\<rparr>)"

text \<open>What a call hands to its caller: a reference to an object, or a value.\<close>

datatype 'v result = Ref nat | Val 'v

fun read_result :: "('v, 'w) state \<Rightarrow> 'v result \<Rightarrow> error + 'v" where
  "read_result st (Ref p) = load st p"
| "read_result st (Val v) = Inr v"

subsection \<open>What the template takes from its type arguments\<close>

text \<open>
  \<^item> \<open>less_op T2 T1\<close>: the comparison \<open>b < a\<close> for a \<open>T2\<close> and a \<open>T1\<close>, where there is
    one. It takes its operands as values: it does not change them.
  \<^item> \<open>cond_conv\<close>: the type of a conditional expression whose operands have different
    types, where it has one.
  \<^item> \<open>convert T\<close>: the conversion of the selected operand to the return type \<open>T\<close>, which
    makes the returned value.
  \<^item> \<open>copy_ctor T\<close> and \<open>move_ctor T\<close>: what makes a parameter of type \<open>T\<close> from an
    argument. A copy does not change its source; a move gives the parameter and the
    value it leaves in its source.
  \<^item> \<open>dtor T\<close>: what the destruction of a parameter does to the outside. It does not
    fail.
\<close>

record ('t, 'v, 'w) type_env =
  less_op :: "'t \<Rightarrow> 't \<Rightarrow> ('v \<Rightarrow> 'v \<Rightarrow> ('w, bool) effect) option"
  cond_conv :: "'t expr_type \<Rightarrow> 't expr_type \<Rightarrow> 't expr_type option"
  convert :: "'t \<Rightarrow> 'v \<Rightarrow> ('w, 'v) effect"
  copy_ctor :: "'t \<Rightarrow> 'v \<Rightarrow> ('w, 'v) effect"
  move_ctor :: "'t \<Rightarrow> 'v \<Rightarrow> ('w, 'v \<times> 'v) effect"
  dtor :: "'t \<Rightarrow> 'v \<Rightarrow> 'w \<Rightarrow> 'w"

subsection \<open>Arguments and parameters\<close>

text \<open>
  \<open>T1 a\<close> and \<open>T2 b\<close> are parameters by value: a call creates the two objects from its
  arguments. An argument is a prvalue, whose value the parameter is made of directly
  (\<open>Temp\<close>); or an lvalue that names an object of the caller, which is copied
  (\<open>Copied\<close>); or such an object cast to an rvalue, which is moved from (\<open>Moved\<close>).
\<close>

datatype 'v arg = Temp 'v | Copied nat | Moved nat

definition init_param ::
  "('t, 'v, 'w) type_env \<Rightarrow> 't \<Rightarrow> 'v arg \<Rightarrow> ('v, 'w) state \<Rightarrow> error + nat \<times> ('v, 'w) state" where
  "init_param L T x st =
     (case x of
        Temp v \<Rightarrow> Inr (create v st)
      | Copied p \<Rightarrow>
          and_then (load st p) (\<lambda>v.
          and_then (copy_ctor L T v (world st)) (\<lambda>(v', w).
            Inr (create v' (st\<lparr>world := w\<rparr>))))
      | Moved p \<Rightarrow>
          and_then (load st p) (\<lambda>v.
          and_then (move_ctor L T v (world st)) (\<lambda>((v', left), w).
            Inr (create v' (st\<lparr>objs := (objs st)[p := Some left], world := w\<rparr>)))))"

fun copied :: "'v arg \<Rightarrow> bool" where
  "copied (Moved p) = False"
| "copied _ = True"

fun arg_alive :: "('v, 'w) state \<Rightarrow> 'v arg \<Rightarrow> bool" where
  "arg_alive st (Temp v) = True"
| "arg_alive st (Copied p) = (case load st p of Inl e \<Rightarrow> False | Inr v \<Rightarrow> True)"
| "arg_alive st (Moved p) = (case load st p of Inl e \<Rightarrow> False | Inr v \<Rightarrow> True)"

text \<open>
  The destruction of a parameter ends its lifetime and runs its destructor. The
  language of 2011 and 2014 ends the lifetime of a parameter when the function
  returns; since 2017 an implementation chooses between that and the end of the full
  expression that holds the call.
\<close>

definition destroy ::
  "('t, 'v, 'w) type_env \<Rightarrow> nat \<times> 't \<Rightarrow> ('v, 'w) state \<Rightarrow> ('v, 'w) state" where
  "destroy L x st =
     (case load st (fst x) of
        Inl e \<Rightarrow> st
      | Inr v \<Rightarrow> st\<lparr>objs := (objs st)[fst x := None], world := dtor L (snd x) v (world st)\<rparr>)"

definition destroy_all ::
  "('t, 'v, 'w) type_env \<Rightarrow> (nat \<times> 't) list \<Rightarrow> ('v, 'w) state \<Rightarrow> ('v, 'w) state" where
  "destroy_all L xs st = fold (destroy L) xs st"

datatype param_lifetime = UntilReturn | UntilFullExpression

subsection \<open>A call of an instance\<close>

text \<open>
  What the selected operand becomes. With a return type \<open>T&\<close> the conditional is an
  lvalue: it yields the parameter object itself, and the call returns a reference to
  it. With a return type that is not a reference the operand is converted to it, and
  the call returns the value.
\<close>

definition yield ::
  "('t, 'v, 'w) type_env \<Rightarrow> 't return_type \<Rightarrow> nat \<Rightarrow> 'v \<Rightarrow> ('w, 'v result) effect" where
  "yield L R p v w =
     (case R of
        LvalueRef T \<Rightarrow> Inr (Ref p, w)
      | ByValue T \<Rightarrow> and_then (convert L T v w) (\<lambda>(v', w'). Inr (Val v', w')))"

text \<open>
  Leaving the function: the parameters are destroyed, in the reverse order of their
  creation, now or at the end of the full expression. In the second case the call hands
  them to its caller, which destroys them with \<open>destroy_all\<close>.
\<close>

definition leave ::
  "('t, 'v, 'w) type_env \<Rightarrow> param_lifetime \<Rightarrow> 'v result \<Rightarrow> (nat \<times> 't) list \<Rightarrow> ('v, 'w) state \<Rightarrow>
   'v result \<times> (nat \<times> 't) list \<times> ('v, 'w) state" where
  "leave L pol r params st =
     (case pol of
        UntilReturn \<Rightarrow> (r, [], destroy_all L params st)
      | UntilFullExpression \<Rightarrow> (r, params, st))"

text \<open>
  The parameters are made from the arguments. The language leaves the order open; here
  \<open>a\<close> is first.
\<close>

definition bind_params ::
  "('t, 'v, 'w) type_env \<Rightarrow> 't \<Rightarrow> 't \<Rightarrow> 'v arg \<Rightarrow> 'v arg \<Rightarrow> ('v, 'w) state \<Rightarrow>
   error + nat \<times> nat \<times> ('v, 'w) state" where
  "bind_params L T1 T2 x y st =
     and_then (init_param L T1 x st) (\<lambda>(pa, st1).
     and_then (init_param L T2 y st1) (\<lambda>(pb, st2).
       Inr (pa, pb, st2)))"

text \<open>
  A call: the parameters are made, the body runs on the two parameter objects, and the
  function is left.
\<close>

definition max_call ::
  "('t, 'v, 'w) type_env \<Rightarrow> param_lifetime \<Rightarrow> 't \<Rightarrow> 't \<Rightarrow> ('v \<Rightarrow> 'v \<Rightarrow> ('w, bool) effect) \<Rightarrow>
   't return_type \<Rightarrow> 'v arg \<Rightarrow> 'v arg \<Rightarrow> ('v, 'w) state \<Rightarrow>
   error + 'v result \<times> (nat \<times> 't) list \<times> ('v, 'w) state" where
  "max_call L pol T1 T2 lt R x y st =
     and_then (bind_params L T1 T2 x y st) (\<lambda>(pa, pb, st2).
     and_then (load st2 pb) (\<lambda>b.
     and_then (load st2 pa) (\<lambda>a.
     and_then (max_body lt (yield L R pa) (yield L R pb) a b (world st2)) (\<lambda>(r, w).
       Inr (leave L pol r [(pb, T2), (pa, T1)] (st2\<lparr>world := w\<rparr>))))))"

text \<open>
  Instantiation is static: it gives the function that calls run, or nothing where the
  comparison or the return type does not exist.
\<close>

definition instantiate_max ::
  "('t, 'v, 'w) type_env \<Rightarrow> param_lifetime \<Rightarrow> 't \<Rightarrow> 't \<Rightarrow>
   ('v arg \<Rightarrow> 'v arg \<Rightarrow> ('v, 'w) state \<Rightarrow>
      error + 'v result \<times> (nat \<times> 't) list \<times> ('v, 'w) state) option" where
  "instantiate_max L pol T1 T2 =
     (case less_op L T2 T1 of
        None \<Rightarrow> None
      | Some lt \<Rightarrow>
          (case decltype_cond (cond_conv L) T1 T2 of
             None \<Rightarrow> None
           | Some R \<Rightarrow> Some (max_call L pol T1 T2 lt R)))"

subsection \<open>What a caller can do afterwards\<close>

text \<open>
  The actions of a caller on the state: it creates an object, destroys one, assigns to
  one that is alive, or changes the outside state.
\<close>

datatype ('v, 'w) action = Create 'v | Destroy nat | Assign nat 'v | Outside "'w \<Rightarrow> 'w"

fun act :: "('v, 'w) action \<Rightarrow> ('v, 'w) state \<Rightarrow> ('v, 'w) state" where
  "act (Create v) st = snd (create v st)"
| "act (Destroy p) st = st\<lparr>objs := (objs st)[p := None]\<rparr>"
| "act (Assign p v) st =
     (case load st p of Inl e \<Rightarrow> st | Inr u \<Rightarrow> st\<lparr>objs := (objs st)[p := Some v]\<rparr>)"
| "act (Outside g) st = st\<lparr>world := g (world st)\<rparr>"

definition later :: "('v, 'w) action list \<Rightarrow> ('v, 'w) state \<Rightarrow> ('v, 'w) state" where
  "later acts st = fold act acts st"

subsection \<open>Conditions on the operations of the types\<close>

text \<open>No operation of the types fails, whatever its operands and the outside state.\<close>

definition never_fails :: "('t, 'v, 'w) type_env \<Rightarrow> bool" where
  "never_fails L \<longleftrightarrow>
     (\<forall>T v w. \<exists>r. copy_ctor L T v w = Inr r) \<and>
     (\<forall>T v w. \<exists>r. move_ctor L T v w = Inr r) \<and>
     (\<forall>T v w. \<exists>r. convert L T v w = Inr r) \<and>
     (\<forall>T2 T1 lt b a w. less_op L T2 T1 = Some lt \<longrightarrow> (\<exists>r. lt b a w = Inr r))"

text \<open>No operation of the types changes the outside state.\<close>

definition effect_free :: "('t, 'v, 'w) type_env \<Rightarrow> bool" where
  "effect_free L \<longleftrightarrow>
     (\<forall>T v w r w'. copy_ctor L T v w = Inr (r, w') \<longrightarrow> w' = w) \<and>
     (\<forall>T v w r w'. convert L T v w = Inr (r, w') \<longrightarrow> w' = w) \<and>
     (\<forall>T2 T1 lt b a w r w'. less_op L T2 T1 = Some lt \<longrightarrow> lt b a w = Inr (r, w') \<longrightarrow> w' = w) \<and>
     (\<forall>T v w. dtor L T v w = w)"

subsection \<open>The arithmetic types \<open>int\<close> and \<open>double\<close>\<close>

text \<open>
  The outside state of the arithmetic types is the floating-point status flag
  \<open>FE_INVALID\<close>: the comparison \<open><\<close> raises it when an operand is not a number.
  Comparisons of two \<open>int\<close> do not touch it. Copies and moves of arithmetic values are
  copies, and their destruction does nothing.
\<close>

datatype ctype = TInt | TDouble

datatype cvalue = IntV cint | DoubleV double

fun to_double :: "cvalue \<Rightarrow> double" where
  "to_double (IntV i) = int_to_double i"
| "to_double (DoubleV d) = d"

fun arith_less :: "cvalue \<Rightarrow> cvalue \<Rightarrow> bool" where
  "arith_less (IntV x) (IntV y) = int_less x y"
| "arith_less x y = double_less (to_double x) (to_double y)"

fun raises_invalid :: "cvalue \<Rightarrow> cvalue \<Rightarrow> bool" where
  "raises_invalid (IntV x) (IntV y) = False"
| "raises_invalid x y = (to_double x = NaN \<or> to_double y = NaN)"

definition arith_less_op :: "cvalue \<Rightarrow> cvalue \<Rightarrow> (bool, bool) effect" where
  "arith_less_op x y fe_invalid = Inr (arith_less x y, fe_invalid \<or> raises_invalid x y)"

fun arith_common :: "ctype \<Rightarrow> ctype \<Rightarrow> ctype" where
  "arith_common TInt TInt = TInt"
| "arith_common _ _ = TDouble"

definition arith_cond_conv :: "ctype expr_type \<Rightarrow> ctype expr_type \<Rightarrow> ctype expr_type option" where
  "arith_cond_conv e2 e3 = Some (arith_common (fst e2) (fst e3), Prvalue)"

text \<open>
  The only conversion between different types that \<open>max\<close> can ask for is the one to
  \<open>double\<close>; a conversion to \<open>int\<close> is asked for an \<open>int\<close> only.
\<close>

fun arith_convert :: "ctype \<Rightarrow> cvalue \<Rightarrow> cvalue" where
  "arith_convert TDouble v = DoubleV (to_double v)"
| "arith_convert TInt v = v"

definition arith :: "(ctype, cvalue, bool) type_env" where
  "arith = \<lparr>less_op = (\<lambda>T2 T1. Some arith_less_op),
            cond_conv = arith_cond_conv,
            convert = (\<lambda>T v. pure_effect (arith_convert T v)),
            copy_ctor = (\<lambda>T v. pure_effect v),
            move_ctor = (\<lambda>T v. pure_effect (v, v)),
            dtor = (\<lambda>T v w. w)\<rparr>"

subsection \<open>A class type\<close>

text \<open>
  Records of a key and a text, ordered by their key alone: two different records with
  one key are equivalent under the ordering. A move leaves its source with an empty
  text. No operation of the type fails or acts on the outside, which is empty.
\<close>

datatype rtype = TRec

type_synonym rvalue = "cint \<times> string"

definition key_less :: "rvalue \<Rightarrow> rvalue \<Rightarrow> bool" where
  "key_less x y = int_less (fst x) (fst y)"

definition key_less_op :: "rvalue \<Rightarrow> rvalue \<Rightarrow> (unit, bool) effect" where
  "key_less_op b a = pure_effect (key_less b a)"

definition recs :: "(rtype, rvalue, unit) type_env" where
  "recs = \<lparr>less_op = (\<lambda>T2 T1. Some key_less_op),
           cond_conv = (\<lambda>e2 e3. None),
           convert = (\<lambda>T v. pure_effect v),
           copy_ctor = (\<lambda>T v. pure_effect v),
           move_ctor = (\<lambda>T v. pure_effect (v, (fst v, []))),
           dtor = (\<lambda>T v w. w)\<rparr>"

text \<open>The same records with a comparison that throws when the keys are equal.\<close>

definition throwing_less :: "rvalue \<Rightarrow> rvalue \<Rightarrow> (unit, bool) effect" where
  "throwing_less b a w = (if fst b = fst a then Inl Thrown else Inr (key_less b a, w))"

definition throwing_recs :: "(rtype, rvalue, unit) type_env" where
  "throwing_recs = recs\<lparr>less_op := (\<lambda>T2 T1. Some throwing_less)\<rparr>"

section \<open>Properties of the parts\<close>

lemma and_then_Inl [simp]: "and_then (Inl e) k = Inl e"
  by (simp add: and_then_def)

lemma and_then_Inr [simp]: "and_then (Inr x) k = k x"
  by (simp add: and_then_def)

lemma and_then_eq_Inr: "and_then m k = Inr r \<longleftrightarrow> (\<exists>x. m = Inr x \<and> k x = Inr r)"
  by (cases m) simp_all

text \<open>
  With operations that are functions of their operands the body is \<open>max_decltype\<close>.
\<close>

lemma max_body_pure:
  "max_body (\<lambda>b a. pure_effect (lt b a)) (\<lambda>a. pure_effect (conv_a a)) (\<lambda>b. pure_effect (conv_b b))
     a b w = Inr (max_decltype lt conv_a conv_b a b, w)"
  by (simp add: max_body_def max_decltype_def pure_effect_def)

lemma lit_7_2_nearest: "lit_7_2 = Finite q \<Longrightarrow> \<bar>q - 36 / 5\<bar> \<le> 1 / 2 ^ 51"
  by (auto simp: lit_7_2_def)

lemma decltype_cond_same: "decltype_cond conv T T = Some (LvalueRef T)"
  by (simp add: decltype_cond_def cond_type_def param_expr_def)

lemma instantiate_maxE:
  assumes "instantiate_max L pol T1 T2 = Some f"
  obtains lt R where "less_op L T2 T1 = Some lt"
    and "decltype_cond (cond_conv L) T1 T2 = Some R"
    and "f = max_call L pol T1 T2 lt R"
  using assms by (auto simp: instantiate_max_def split: option.splits)

lemma load_Inr_iff: "load st p = Inr v \<longleftrightarrow> p < length (objs st) \<and> objs st ! p = Some v"
  by (auto simp: load_def split: option.splits)

lemma load_dead: "p < length (objs st) \<Longrightarrow> objs st ! p = None \<Longrightarrow> load st p = Inl OutOfLifetime"
  by (simp add: load_def)

lemma init_param_Inr:
  assumes "init_param L T x st = Inr (p, st')"
  shows "p = length (objs st)"
    and "length (objs st') = Suc (length (objs st))"
    and "\<exists>v. objs st' ! p = Some v"
    and "\<And>q u. load st q = Inr u \<Longrightarrow> \<exists>u'. load st' q = Inr u'"
    and "copied x \<Longrightarrow> take (length (objs st)) (objs st') = objs st"
  using assms
  by (cases x; auto simp: init_param_def create_def and_then_eq_Inr load_Inr_iff nth_append
      nth_list_update split: prod.splits)+

lemma init_param_world:
  assumes "init_param L T x st = Inr (p, st')" and "effect_free L" and "copied x"
  shows "world st' = world st"
  using assms
  by (cases x; auto simp: init_param_def create_def and_then_eq_Inr effect_free_def
      split: prod.splits)

lemma init_param_total:
  assumes "never_fails L" and "arg_alive st x"
  shows "\<exists>res. init_param L T x st = Inr res"
proof (cases x)
  case (Temp v)
  then show ?thesis by (simp add: init_param_def)
next
  case (Copied q)
  with assms(2) obtain v where "load st q = Inr v"
    by (auto split: sum.splits)
  moreover from assms(1) obtain r where "copy_ctor L T v (world st) = Inr r"
    unfolding never_fails_def by blast
  ultimately show ?thesis
    using Copied by (cases r) (simp add: init_param_def)
next
  case (Moved q)
  with assms(2) obtain v where "load st q = Inr v"
    by (auto split: sum.splits)
  moreover from assms(1) obtain r where "move_ctor L T v (world st) = Inr r"
    unfolding never_fails_def by blast
  ultimately show ?thesis
    using Moved by (cases r) (auto simp: init_param_def split: prod.splits)
qed

lemma arg_alive_init_param:
  assumes "init_param L T x st = Inr (p, st')" and "arg_alive st y"
  shows "arg_alive st' y"
proof (cases y)
  case (Temp v)
  then show ?thesis by simp
next
  case (Copied q)
  with assms(2) obtain u where "load st q = Inr u"
    by (auto split: sum.splits)
  from init_param_Inr(4) [OF assms(1) this] Copied show ?thesis by auto
next
  case (Moved q)
  with assms(2) obtain u where "load st q = Inr u"
    by (auto split: sum.splits)
  from init_param_Inr(4) [OF assms(1) this] Moved show ?thesis by auto
qed

lemma bind_params_Inr:
  assumes "bind_params L T1 T2 x y st = Inr (pa, pb, st2)"
  shows "pa = length (objs st)" and "pb = Suc (length (objs st))"
    and "length (objs st2) = Suc (Suc (length (objs st)))"
    and "\<exists>a. load st2 pa = Inr a" and "\<exists>b. load st2 pb = Inr b"
    and "copied x \<Longrightarrow> copied y \<Longrightarrow> take (length (objs st)) (objs st2) = objs st"
    and "effect_free L \<Longrightarrow> copied x \<Longrightarrow> copied y \<Longrightarrow> world st2 = world st"
proof -
  from assms obtain st1 where
    a: "init_param L T1 x st = Inr (pa, st1)" and b: "init_param L T2 y st1 = Inr (pb, st2)"
    by (auto simp: bind_params_def and_then_eq_Inr)
  note fa = init_param_Inr [OF a] and fb = init_param_Inr [OF b]
  show "pa = length (objs st)" by (rule fa(1))
  show "pb = Suc (length (objs st))" using fa(2) fb(1) by simp
  show "length (objs st2) = Suc (Suc (length (objs st)))" using fa(2) fb(2) by simp
  from fa(3) fa(1) fa(2) have "\<exists>a. load st1 pa = Inr a"
    by (auto simp: load_Inr_iff)
  with fb(4) show "\<exists>a. load st2 pa = Inr a" by blast
  from fb(3) fb(1) fb(2) show "\<exists>b. load st2 pb = Inr b"
    by (auto simp: load_Inr_iff)
  show "take (length (objs st)) (objs st2) = objs st" if "copied x" "copied y"
  proof -
    from fa(5) that have 1: "take (length (objs st)) (objs st1) = objs st" by simp
    from fb(5) that have 2: "take (length (objs st1)) (objs st2) = objs st1" by simp
    have "take (length (objs st)) (objs st2) =
            take (length (objs st)) (take (length (objs st1)) (objs st2))"
      using fa(2) by simp
    with 1 2 show ?thesis by simp
  qed
  show "world st2 = world st" if "effect_free L" "copied x" "copied y"
    using init_param_world [OF a] init_param_world [OF b] that by simp
qed

lemma bind_params_total:
  assumes "never_fails L" and "arg_alive st x" and "arg_alive st y"
  shows "\<exists>res. bind_params L T1 T2 x y st = Inr res"
proof -
  from init_param_total [OF assms(1,2)] obtain pa st1 where
    a: "init_param L T1 x st = Inr (pa, st1)" by fastforce
  from arg_alive_init_param [OF a assms(3)] init_param_total [OF assms(1)]
  obtain res where "init_param L T2 y st1 = Inr res" by blast
  with a show ?thesis
    by (cases res) (simp add: bind_params_def)
qed

lemma destroy_objs: "objs (destroy L x st) = (objs st)[fst x := None]"
proof (cases "load st (fst x)")
  case (Inl e)
  then have "fst x < length (objs st) \<Longrightarrow> objs st ! fst x = None"
    by (auto simp: load_def split: option.splits)
  then have "(objs st)[fst x := None] = objs st"
    by (cases "fst x < length (objs st)") (simp_all add: list_update_same_conv list_update_beyond)
  with Inl show ?thesis by (simp add: destroy_def)
next
  case (Inr v)
  then show ?thesis by (simp add: destroy_def)
qed

lemma destroy_world: "effect_free L \<Longrightarrow> world (destroy L x st) = world st"
  by (simp add: destroy_def effect_free_def split: sum.splits)

lemma destroy_all_pair_objs:
  "objs (destroy_all L [x, y] st) = (objs st)[fst x := None, fst y := None]"
  by (simp add: destroy_all_def destroy_objs)

lemma destroy_all_pair_world:
  "effect_free L \<Longrightarrow> world (destroy_all L [x, y] st) = world st"
  by (simp add: destroy_all_def destroy_world)

lemma leave_result:
  assumes "leave L pol r params st = (r', pend, st')"
  shows "r' = r" and "destroy_all L pend st' = destroy_all L params st"
  using assms by (cases pol; auto simp: leave_def destroy_all_def)+

lemma act_dead:
  assumes "p < length (objs st)" and "objs st ! p = None"
  shows "p < length (objs (act x st)) \<and> objs (act x st) ! p = None"
proof (cases x)
  case (Create v)
  with assms show ?thesis by (simp add: create_def nth_append)
next
  case (Destroy q)
  with assms show ?thesis
    by (cases "q < length (objs st)") (simp_all add: nth_list_update list_update_beyond)
next
  case (Assign q v)
  with assms show ?thesis
    by (auto simp: nth_list_update load_Inr_iff split: sum.splits)
next
  case (Outside g)
  with assms show ?thesis by simp
qed

lemma later_dead:
  assumes "p < length (objs st)" and "objs st ! p = None"
  shows "load (later acts st) p = Inl OutOfLifetime"
proof -
  from assms have "p < length (objs (later acts st)) \<and> objs (later acts st) ! p = None"
  proof (induction acts arbitrary: st)
    case Nil
    then show ?case by (simp add: later_def)
  next
    case (Cons x acts)
    from act_dead [OF Cons.prems] Cons.IH [of "act x st"]
    show ?case by (simp add: later_def)
  qed
  then show ?thesis by (simp add: load_dead)
qed

lemma max_callE:
  assumes "max_call L pol T1 T2 lt R x y st = Inr (r, pend, st')"
  obtains pa pb st2 a b w where
    "bind_params L T1 T2 x y st = Inr (pa, pb, st2)"
    and "load st2 pa = Inr a" and "load st2 pb = Inr b"
    and "max_body lt (yield L R pa) (yield L R pb) a b (world st2) = Inr (r, w)"
    and "leave L pol r [(pb, T2), (pa, T1)] (st2\<lparr>world := w\<rparr>) = (r, pend, st')"
proof -
  from assms obtain pa pb st2 a b r' w where
    1: "bind_params L T1 T2 x y st = Inr (pa, pb, st2)"
    and 2: "load st2 pa = Inr a" and 3: "load st2 pb = Inr b"
    and 4: "max_body lt (yield L R pa) (yield L R pb) a b (world st2) = Inr (r', w)"
    and 5: "leave L pol r' [(pb, T2), (pa, T1)] (st2\<lparr>world := w\<rparr>) = (r, pend, st')"
    by (auto simp: max_call_def and_then_eq_Inr split: prod.splits)
  from leave_result(1) [OF 5] have "r' = r" by simp
  with 1 2 3 4 5 that show thesis by blast
qed

lemma max_body_yield_ref:
  assumes "max_body lt (yield L (LvalueRef T) pa) (yield L (LvalueRef T) pb) a b w = Inr (r, w')"
  shows "r = Ref pa \<or> r = Ref pb"
  using assms
  by (auto simp: max_body_def yield_def and_then_eq_Inr split: if_splits)

lemma max_body_world:
  assumes "effect_free L" and "less_op L T2 T1 = Some lt"
    and "max_body lt (yield L R pa) (yield L R pb) a b w = Inr (r, w')"
  shows "w' = w"
proof -
  from assms(3) obtain c w1 where lt: "lt b a w = Inr (c, w1)"
    and y: "(if c then yield L R pa a w1 else yield L R pb b w1) = Inr (r, w')"
    by (auto simp: max_body_def and_then_eq_Inr)
  from assms(1,2) lt have "w1 = w"
    unfolding effect_free_def by blast
  moreover have "yield L R p v w1 = Inr (r, w') \<Longrightarrow> w' = w1" for p v
    using assms(1) unfolding effect_free_def
    by (cases R) (auto simp: yield_def and_then_eq_Inr)
  ultimately show ?thesis
    using y by (auto split: if_splits)
qed

lemma max_body_total:
  assumes "never_fails L" and "less_op L T2 T1 = Some lt"
  shows "\<exists>res. max_body lt (yield L R pa) (yield L R pb) a b w = Inr res"
proof -
  from assms obtain c w1 where lt: "lt b a w = Inr (c, w1)"
    unfolding never_fails_def by fastforce
  have "\<exists>res. yield L R p v w1 = Inr res" for p v
  proof (cases R)
    case (ByValue T)
    from assms(1) obtain u w2 where "convert L T v w1 = Inr (u, w2)"
      unfolding never_fails_def by fastforce
    with ByValue show ?thesis by (simp add: yield_def)
  next
    case (LvalueRef T)
    then show ?thesis by (simp add: yield_def)
  qed
  with lt show ?thesis
    by (simp add: max_body_def)
qed

lemma two_dead_slots:
  assumes "take n xs = ys" and "length xs = Suc (Suc n)"
  shows "xs[Suc n := None, n := None] = ys @ [None, None]"
proof (rule nth_equalityI)
  from assms show "length (xs[Suc n := None, n := None]) = length (ys @ [None, None])"
    by auto
next
  fix i
  assume "i < length (xs[Suc n := None, n := None])"
  with assms(2) have i: "i < Suc (Suc n)" by simp
  from assms have ys: "length ys = n" "\<And>j. j < n \<Longrightarrow> ys ! j = xs ! j"
    by auto
  from i consider "i < n" | "i = n" | "i = Suc n" by linarith
  then show "xs[Suc n := None, n := None] ! i = (ys @ [None, None]) ! i"
    using assms(2) ys by cases (simp_all add: nth_append)
qed

lemma two_dead_slots_append:
  "(ys @ [u, v])[Suc (length ys) := None, length ys := None] = ys @ [None, None]"
  by (rule two_dead_slots) simp_all

subsection \<open>The types of the examples\<close>

lemmas call_defs =
  max_call_def bind_params_def init_param_def create_def load_def max_body_def yield_def
  leave_def destroy_all_def destroy_def pure_effect_def

lemma arith_ops:
  "less_op arith T2 T1 = Some arith_less_op"
  "cond_conv arith = arith_cond_conv"
  "convert arith T v = pure_effect (arith_convert T v)"
  "copy_ctor arith T v = pure_effect v"
  "move_ctor arith T v = pure_effect (v, v)"
  "dtor arith T v w = w"
  by (simp_all add: arith_def)

lemma recs_ops:
  "less_op recs T2 T1 = Some key_less_op"
  "cond_conv recs e2 e3 = None"
  "convert recs T v = pure_effect v"
  "copy_ctor recs T v = pure_effect v"
  "move_ctor recs T v = pure_effect (v, (fst v, []))"
  "dtor recs T v w = w"
  by (simp_all add: recs_def)

lemma throwing_recs_ops:
  "less_op throwing_recs T2 T1 = Some throwing_less"
  "cond_conv throwing_recs e2 e3 = None"
  "convert throwing_recs T v = pure_effect v"
  "copy_ctor throwing_recs T v = pure_effect v"
  "move_ctor throwing_recs T v = pure_effect (v, (fst v, []))"
  "dtor throwing_recs T v w = w"
  by (simp_all add: throwing_recs_def recs_def)

lemma arith_int_int:
  "instantiate_max arith pol TInt TInt =
     Some (max_call arith pol TInt TInt arith_less_op (LvalueRef TInt))"
  by (simp add: instantiate_max_def arith_ops decltype_cond_same)

lemma arith_int_double_type:
  "decltype_cond (cond_conv arith) TInt TDouble = Some (ByValue TDouble)"
  by (simp add: decltype_cond_def cond_type_def param_expr_def arith_ops arith_cond_conv_def)

lemma arith_int_double:
  "instantiate_max arith pol TInt TDouble =
     Some (max_call arith pol TInt TDouble arith_less_op (ByValue TDouble))"
  by (simp add: instantiate_max_def arith_int_double_type arith_ops(1))

lemma recs_instance:
  "instantiate_max recs pol TRec TRec =
     Some (max_call recs pol TRec TRec key_less_op (LvalueRef TRec))"
  by (simp add: instantiate_max_def recs_ops decltype_cond_same)

lemma never_fails_arith: "never_fails arith"
  by (simp add: never_fails_def arith_ops pure_effect_def arith_less_op_def)

lemma effect_free_recs: "effect_free recs"
  by (simp add: effect_free_def recs_ops pure_effect_def key_less_op_def)

section \<open>What a call returns\<close>


text \<open>
  C1. The claim is that every call that type-checks returns a value equal to \<open>a\<close> or to
  \<open>b\<close>, converted. The call \<open>max(7, 2)\<close> on two \<open>int\<close> does not: its return type is
  \<open>int&\<close>, it returns a reference to the parameter \<open>a\<close>, and where parameters are
  destroyed at the return the caller that reads the result reads an object whose
  lifetime has ended.
\<close>

theorem max_7_2_returns_dead_reference:
  "instantiate_max arith UntilReturn TInt TInt =
     Some (max_call arith UntilReturn TInt TInt arith_less_op (LvalueRef TInt)) \<and>
   max_call arith UntilReturn TInt TInt arith_less_op (LvalueRef TInt)
     (Temp (IntV 7)) (Temp (IntV 2)) \<lparr>objs = [], world = False\<rparr> =
     Inr (Ref 0, [], \<lparr>objs = [None, None], world = False\<rparr>) \<and>
   read_result \<lparr>objs = [None, None], world = False\<rparr> (Ref 0 :: cvalue result) =
     Inl OutOfLifetime"
  by (simp add: arith_int_int) (simp add: call_defs arith_ops arith_less_op_def int_less_def)

text \<open>
  C2. When \<open>T1\<close> and \<open>T2\<close> are one type \<open>T\<close> with a comparison, the return type
  \<open>decltype(b < a ? a : b)\<close> is \<open>T&\<close>, and a call that completes returns a reference to
  one of the two parameter objects of the call. The parameters are destroyed at the
  return or at the end of the full expression that holds the call. Where they are
  destroyed at the return, reading the result after the call is an access to a
  destroyed object. In both cases, once the full expression has ended, every access
  through the reference is one to a destroyed object, whatever the caller has done to
  the state in between.
\<close>

theorem max_same_type_returns_reference_to_parameter:
  assumes "less_op L T T = Some lt"
    and "max_call L pol T T lt (LvalueRef T) x y st = Inr (r, pend, st')"
  shows "decltype_cond (cond_conv L) T T = Some (LvalueRef T) \<and>
         instantiate_max L pol T T = Some (max_call L pol T T lt (LvalueRef T)) \<and>
         (\<exists>pa pb st2 p.
              bind_params L T T x y st = Inr (pa, pb, st2) \<and>
              r = Ref p \<and> (p = pa \<or> p = pb) \<and> length (objs st) \<le> p \<and>
              (pol = UntilReturn \<longrightarrow> read_result st' r = Inl OutOfLifetime) \<and>
              (\<forall>acts. load (later acts (destroy_all L pend st')) p = Inl OutOfLifetime))"
proof -
  have ret: "decltype_cond (cond_conv L) T T = Some (LvalueRef T)"
    by (rule decltype_cond_same)
  with assms(1) have inst:
    "instantiate_max L pol T T = Some (max_call L pol T T lt (LvalueRef T))"
    by (simp add: instantiate_max_def)
  from assms(2) obtain pa pb st2 a b w where
    bind: "bind_params L T T x y st = Inr (pa, pb, st2)"
    and body: "max_body lt (yield L (LvalueRef T) pa) (yield L (LvalueRef T) pb) a b (world st2)
                 = Inr (r, w)"
    and left: "leave L pol r [(pb, T), (pa, T)] (st2\<lparr>world := w\<rparr>) = (r, pend, st')"
    by (rule max_callE)
  note addr = bind_params_Inr(1-3) [OF bind]
  from max_body_yield_ref [OF body] obtain p where
    r: "r = Ref p" and p: "p = pa \<or> p = pb"
    by blast
  let ?end = "destroy_all L pend st'"
  from leave_result(2) [OF left]
  have "objs ?end = (objs st2)[pb := None, pa := None]"
    by (simp add: destroy_all_pair_objs)
  with addr p have dead: "p < length (objs ?end)" "objs ?end ! p = None"
    by auto
  then have after: "load (later acts ?end) p = Inl OutOfLifetime" for acts
    by (rule later_dead)
  have "read_result st' r = Inl OutOfLifetime" if "pol = UntilReturn"
  proof -
    from that left have "pend = []"
      by (simp add: leave_def)
    with after [of "[]"] r show ?thesis
      by (simp add: later_def destroy_all_def)
  qed
  moreover from p addr have "length (objs st) \<le> p"
    by auto
  ultimately show ?thesis
    using ret inst bind r p after by blast
qed

theorem max_same_type_returns_reference_to_parameter_witness:
  "less_op arith TInt TInt = Some arith_less_op \<and>
   max_call arith UntilFullExpression TInt TInt arith_less_op (LvalueRef TInt)
     (Temp (IntV 10)) (Temp (IntV 20)) \<lparr>objs = [], world = False\<rparr> =
     Inr (Ref 1, [(1, TInt), (0, TInt)],
          \<lparr>objs = [Some (IntV 10), Some (IntV 20)], world = False\<rparr>) \<and>
   decltype_cond (cond_conv arith) TInt TInt = Some (LvalueRef TInt) \<and>
   load (later [Create (IntV 0), Assign 1 (IntV 5)]
          (destroy_all arith [(1, TInt), (0, TInt)]
             \<lparr>objs = [Some (IntV 10), Some (IntV 20)], world = False\<rparr>)) 1 =
     Inl OutOfLifetime"
proof -
  have lt: "less_op arith TInt TInt = Some arith_less_op"
    by (rule arith_ops)
  have call:
    "max_call arith UntilFullExpression TInt TInt arith_less_op (LvalueRef TInt)
       (Temp (IntV 10)) (Temp (IntV 20)) \<lparr>objs = [], world = False\<rparr> =
       Inr (Ref 1, [(1, TInt), (0, TInt)],
            \<lparr>objs = [Some (IntV 10), Some (IntV 20)], world = False\<rparr>)"
    by (simp add: call_defs arith_ops arith_less_op_def int_less_def)
  from max_same_type_returns_reference_to_parameter [OF lt call]
  obtain p where ret: "decltype_cond (cond_conv arith) TInt TInt = Some (LvalueRef TInt)"
    and p: "(Ref 1 :: cvalue result) = Ref p"
    and dead: "\<forall>acts. load (later acts
                 (destroy_all arith [(1, TInt), (0, TInt)]
                    \<lparr>objs = [Some (IntV 10), Some (IntV 20)], world = False\<rparr>)) p =
               Inl OutOfLifetime"
    by blast
  from p have "p = 1" by simp
  with dead lt call ret show ?thesis by blast
qed

text \<open>
  The reference is not dangling at every use: where parameters live until the end of
  the full expression, a read of the result inside the full expression of the call
  finds the parameter alive. Two records, the second with the greater key.
\<close>

theorem max_reference_alive_in_full_expression:
  "instantiate_max recs UntilFullExpression TRec TRec =
     Some (max_call recs UntilFullExpression TRec TRec key_less_op (LvalueRef TRec)) \<and>
   max_call recs UntilFullExpression TRec TRec key_less_op (LvalueRef TRec)
     (Temp (1, ''first'')) (Temp (2, ''second'')) \<lparr>objs = [], world = ()\<rparr> =
     Inr (Ref 1, [(1, TRec), (0, TRec)],
          \<lparr>objs = [Some (1, ''first''), Some (2, ''second'')], world = ()\<rparr>) \<and>
   read_result \<lparr>objs = [Some (1, ''first''), Some (2, ''second'')], world = ()\<rparr> (Ref 1) =
     Inr (2, ''second'')"
  by (simp add: recs_instance)
    (simp add: call_defs recs_ops key_less_op_def key_less_def int_less_def)

text \<open>
  C3. The template adds no failure of its own. A call of an instance, with arguments
  that are alive, runs to its end whenever the operations of the types do not fail:
  the copy or move of an argument into its parameter, the comparison, the conversion
  of the selected operand.
\<close>

theorem max_fails_only_with_its_types:
  assumes "instantiate_max L pol T1 T2 = Some f"
    and "never_fails L" and "arg_alive st x" and "arg_alive st y"
  shows "\<exists>r pend st'. f x y st = Inr (r, pend, st')"
proof -
  from assms(1) obtain lt R where lt: "less_op L T2 T1 = Some lt"
    and f: "f = max_call L pol T1 T2 lt R"
    by (rule instantiate_maxE)
  from bind_params_total [OF assms(2-4)] obtain pa pb st2 where
    bind: "bind_params L T1 T2 x y st = Inr (pa, pb, st2)"
    by fastforce
  from bind_params_Inr(4,5) [OF bind] obtain a b where
    a: "load st2 pa = Inr a" and b: "load st2 pb = Inr b"
    by blast
  from max_body_total [OF assms(2) lt] obtain r w where
    "max_body lt (yield L R pa) (yield L R pb) a b (world st2) = Inr (r, w)"
    by fastforce
  with bind a b f have
    "f x y st = Inr (leave L pol r [(pb, T2), (pa, T1)] (st2\<lparr>world := w\<rparr>))"
    by (simp add: max_call_def)
  then show ?thesis
    by (cases "leave L pol r [(pb, T2), (pa, T1)] (st2\<lparr>world := w\<rparr>)") auto
qed

theorem max_fails_only_with_its_types_witness:
  "never_fails arith \<and>
   arg_alive \<lparr>objs = [Some (IntV 4), Some (DoubleV lit_7_2)], world = False\<rparr> (Copied 0) \<and>
   arg_alive \<lparr>objs = [Some (IntV 4), Some (DoubleV lit_7_2)], world = False\<rparr> (Copied 1) \<and>
   instantiate_max arith UntilReturn TInt TDouble =
     Some (max_call arith UntilReturn TInt TDouble arith_less_op (ByValue TDouble)) \<and>
   (\<exists>r pend st'.
      max_call arith UntilReturn TInt TDouble arith_less_op (ByValue TDouble)
        (Copied 0) (Copied 1)
        \<lparr>objs = [Some (IntV 4), Some (DoubleV lit_7_2)], world = False\<rparr> =
        Inr (r, pend, st'))"
proof -
  let ?st = "\<lparr>objs = [Some (IntV 4), Some (DoubleV lit_7_2)], world = False\<rparr>"
  have a: "arg_alive ?st (Copied 0)" and b: "arg_alive ?st (Copied 1)"
    by (simp_all add: load_def)
  from max_fails_only_with_its_types [OF arith_int_double never_fails_arith a b]
    never_fails_arith a b arith_int_double [of UntilReturn]
  show ?thesis by blast
qed

text \<open>
  An instance that type-checks can fail at run time: with a comparison that throws, the
  call ends in the exception.
\<close>

theorem max_throws_with_throwing_comparison:
  "instantiate_max throwing_recs UntilReturn TRec TRec =
     Some (max_call throwing_recs UntilReturn TRec TRec throwing_less (LvalueRef TRec)) \<and>
   max_call throwing_recs UntilReturn TRec TRec throwing_less (LvalueRef TRec)
     (Temp (1, ''first'')) (Temp (1, ''second'')) \<lparr>objs = [], world = ()\<rparr> =
     Inl Thrown"
  by (simp add: instantiate_max_def throwing_recs_ops decltype_cond_same)
    (simp add: call_defs throwing_recs_ops throwing_less_def)



text \<open>
  C5. The claim is that \<open>max(x, y)\<close> on one type is \<open>y\<close> when \<open>x <= y\<close> and \<open>x\<close> when
  \<open>x > y\<close>, and that \<open>max(-5, -1)\<close> returns \<open>-1\<close>. The call \<open>max(-5, -1)\<close> on two
  \<open>int\<close> returns a reference to the parameter \<open>b\<close>; where parameters are destroyed at
  the return, the caller that reads the result reads an object whose lifetime has
  ended, and not \<open>-1\<close>.
\<close>

theorem max_minus5_minus1_returns_dead_reference:
  "instantiate_max arith UntilReturn TInt TInt =
     Some (max_call arith UntilReturn TInt TInt arith_less_op (LvalueRef TInt)) \<and>
   max_call arith UntilReturn TInt TInt arith_less_op (LvalueRef TInt)
     (Temp (IntV (- 5))) (Temp (IntV (- 1))) \<lparr>objs = [], world = False\<rparr> =
     Inr (Ref 1, [], \<lparr>objs = [None, None], world = False\<rparr>) \<and>
   read_result \<lparr>objs = [None, None], world = False\<rparr> (Ref 1 :: cvalue result) =
     Inl OutOfLifetime"
  by (simp add: arith_int_int) (simp add: call_defs arith_ops arith_less_op_def int_less_def)

text \<open>
  C6. The claim is that \<open>max(x, x)\<close> is \<open>x\<close>, and that \<open>max(3, 3)\<close> returns \<open>3\<close>. The
  call \<open>max(3, 3)\<close> on two \<open>int\<close> selects its second operand and returns a reference to
  the parameter \<open>b\<close>; where parameters are destroyed at the return, the caller that
  reads the result reads an object whose lifetime has ended, and not \<open>3\<close>.
\<close>

theorem max_3_3_returns_dead_reference:
  "instantiate_max arith UntilReturn TInt TInt =
     Some (max_call arith UntilReturn TInt TInt arith_less_op (LvalueRef TInt)) \<and>
   max_call arith UntilReturn TInt TInt arith_less_op (LvalueRef TInt)
     (Temp (IntV 3)) (Temp (IntV 3)) \<lparr>objs = [], world = False\<rparr> =
     Inr (Ref 1, [], \<lparr>objs = [None, None], world = False\<rparr>) \<and>
   read_result \<lparr>objs = [None, None], world = False\<rparr> (Ref 1 :: cvalue result) =
     Inl OutOfLifetime"
  by (simp add: arith_int_int) (simp add: call_defs arith_ops arith_less_op_def int_less_def)

text \<open>
  C7. \<open>max(a, b)\<close> for the \<open>int\<close> \<open>a = 4\<close> and the \<open>double\<close> \<open>b = 7.2\<close>: the common type
  is \<open>double\<close>, which is the return type; \<open>b < a\<close> is false; the body yields \<open>b\<close>, and
  the call returns the value \<open>7.2\<close>, whenever the parameters are destroyed, and leaves
  nothing behind but the two destroyed parameters.
\<close>

theorem max_4_and_7_2:
  "decltype_cond (cond_conv arith) TInt TDouble = Some (ByValue TDouble) \<and>
   less_double_int lit_7_2 4 = False \<and>
   max_decltype less_double_int int_to_double id 4 lit_7_2 = lit_7_2 \<and>
   (\<exists>f pend st'. instantiate_max arith pol TInt TDouble = Some f \<and>
        f (Temp (IntV 4)) (Temp (DoubleV lit_7_2)) st = Inr (Val (DoubleV lit_7_2), pend, st') \<and>
        destroy_all arith pend st' = st\<lparr>objs := objs st @ [None, None]\<rparr>)"
proof -
  have less: "less_double_int lit_7_2 4 = False"
    by (simp add: less_double_int_def int_to_double_def lit_7_2_def)
  then have body: "max_decltype less_double_int int_to_double id 4 lit_7_2 = lit_7_2"
    by (simp add: max_decltype_def)
  have op: "arith_less_op (DoubleV lit_7_2) (IntV 4) w = Inr (False, w)" for w
    using less by (simp add: arith_less_op_def less_double_int_def lit_7_2_def int_to_double_def)
  let ?f = "max_call arith pol TInt TDouble arith_less_op (ByValue TDouble)"
  let ?st2 = "st\<lparr>objs := objs st @ [Some (IntV 4), Some (DoubleV lit_7_2)]\<rparr>"
  have call: "?f (Temp (IntV 4)) (Temp (DoubleV lit_7_2)) st =
                Inr (leave arith pol (Val (DoubleV lit_7_2))
                       [(Suc (length (objs st)), TDouble), (length (objs st), TInt)] ?st2)"
    by (simp add: max_call_def bind_params_def init_param_def create_def load_def max_body_def
        yield_def op nth_append arith_ops pure_effect_def)
  have fin: "destroy_all arith [(Suc (length (objs st)), TDouble), (length (objs st), TInt)] ?st2
               = st\<lparr>objs := objs st @ [None, None]\<rparr>"
    by (simp add: destroy_all_def destroy_def load_def nth_append arith_ops two_dead_slots_append)
  have "\<exists>pend st'. ?f (Temp (IntV 4)) (Temp (DoubleV lit_7_2)) st =
                       Inr (Val (DoubleV lit_7_2), pend, st') \<and>
                     destroy_all arith pend st' = st\<lparr>objs := objs st @ [None, None]\<rparr>"
    using call fin by (cases pol) (simp_all add: leave_def destroy_all_def)
  with arith_int_double_type less body arith_int_double [of pol] show ?thesis
    by blast
qed

text \<open>
  C8. \<open>max(a, b)\<close> for the \<open>int\<close> \<open>a = 9\<close> and the \<open>double\<close> \<open>b = 2.5\<close>: the common type
  is \<open>double\<close>, which is the return type; \<open>b < a\<close> is true; the body yields \<open>a\<close>
  converted to \<open>double\<close>, and the call returns the value \<open>9.0\<close>, whenever the
  parameters are destroyed, and leaves nothing behind but the two destroyed parameters.
\<close>

theorem max_9_and_2_5:
  "decltype_cond (cond_conv arith) TInt TDouble = Some (ByValue TDouble) \<and>
   less_double_int lit_2_5 9 = True \<and>
   max_decltype less_double_int int_to_double id 9 lit_2_5 = lit_9_0 \<and>
   (\<exists>f pend st'. instantiate_max arith pol TInt TDouble = Some f \<and>
        f (Temp (IntV 9)) (Temp (DoubleV lit_2_5)) st = Inr (Val (DoubleV lit_9_0), pend, st') \<and>
        destroy_all arith pend st' = st\<lparr>objs := objs st @ [None, None]\<rparr>)"
proof -
  have less: "less_double_int lit_2_5 9 = True"
    by (simp add: less_double_int_def int_to_double_def lit_2_5_def)
  have conv: "int_to_double 9 = lit_9_0"
    by (simp add: int_to_double_def lit_9_0_def)
  from less conv have body: "max_decltype less_double_int int_to_double id 9 lit_2_5 = lit_9_0"
    by (simp add: max_decltype_def)
  have op: "arith_less_op (DoubleV lit_2_5) (IntV 9) w = Inr (True, w)" for w
    using less by (simp add: arith_less_op_def less_double_int_def lit_2_5_def int_to_double_def)
  let ?f = "max_call arith pol TInt TDouble arith_less_op (ByValue TDouble)"
  let ?st2 = "st\<lparr>objs := objs st @ [Some (IntV 9), Some (DoubleV lit_2_5)]\<rparr>"
  have call: "?f (Temp (IntV 9)) (Temp (DoubleV lit_2_5)) st =
                Inr (leave arith pol (Val (DoubleV lit_9_0))
                       [(Suc (length (objs st)), TDouble), (length (objs st), TInt)] ?st2)"
    by (simp add: max_call_def bind_params_def init_param_def create_def load_def max_body_def
        yield_def op nth_append arith_ops pure_effect_def conv)
  have fin: "destroy_all arith [(Suc (length (objs st)), TDouble), (length (objs st), TInt)] ?st2
               = st\<lparr>objs := objs st @ [None, None]\<rparr>"
    by (simp add: destroy_all_def destroy_def load_def nth_append arith_ops two_dead_slots_append)
  have "\<exists>pend st'. ?f (Temp (IntV 9)) (Temp (DoubleV lit_2_5)) st =
                       Inr (Val (DoubleV lit_9_0), pend, st') \<and>
                     destroy_all arith pend st' = st\<lparr>objs := objs st @ [None, None]\<rparr>"
    using call fin by (cases pol) (simp_all add: leave_def destroy_all_def)
  with arith_int_double_type less body arith_int_double [of pol] show ?thesis
    by blast
qed

text \<open>
  C9. A call has no effect of its own. With arguments that are copied, lvalues or
  prvalues, the objects of the caller are after the full expression of the call what
  they were before it, and the two parameters are gone. The outside state changes
  through the operations of the types only: when the copy, the comparison, the
  conversion and the destructor have no effect, it is what it was.
\<close>

theorem max_call_effects:
  assumes "instantiate_max L pol T1 T2 = Some f"
    and "f x y st = Inr (r, pend, st')" and "copied x" and "copied y"
  shows "objs (destroy_all L pend st') = objs st @ [None, None] \<and>
         (effect_free L \<longrightarrow> world (destroy_all L pend st') = world st)"
proof -
  from assms(1) obtain lt R where lt: "less_op L T2 T1 = Some lt"
    and f: "f = max_call L pol T1 T2 lt R"
    by (rule instantiate_maxE)
  from assms(2) f obtain pa pb st2 a b w where
    bind: "bind_params L T1 T2 x y st = Inr (pa, pb, st2)"
    and body: "max_body lt (yield L R pa) (yield L R pb) a b (world st2) = Inr (r, w)"
    and left: "leave L pol r [(pb, T2), (pa, T1)] (st2\<lparr>world := w\<rparr>) = (r, pend, st')"
    by (auto elim: max_callE)
  note p = bind_params_Inr [OF bind]
  let ?end = "destroy_all L pend st'"
  from leave_result(2) [OF left]
  have fin: "?end = destroy_all L [(pb, T2), (pa, T1)] (st2\<lparr>world := w\<rparr>)" .
  then have "objs ?end = (objs st2)[pb := None, pa := None]"
    by (simp add: destroy_all_pair_objs)
  with p(1-3) p(6) [OF assms(3,4)] have objs: "objs ?end = objs st @ [None, None]"
    by (simp add: two_dead_slots)
  have "world ?end = world st" if free: "effect_free L"
  proof -
    from max_body_world [OF free lt body] have "w = world st2" .
    with fin p(7) [OF free assms(3,4)] free show ?thesis
      by (simp add: destroy_all_pair_world)
  qed
  with objs show ?thesis by blast
qed

theorem max_call_effects_witness:
  "effect_free recs \<and> copied (Copied 0 :: rvalue arg) \<and> copied (Copied 1 :: rvalue arg) \<and>
   instantiate_max recs UntilReturn TRec TRec =
     Some (max_call recs UntilReturn TRec TRec key_less_op (LvalueRef TRec)) \<and>
   max_call recs UntilReturn TRec TRec key_less_op (LvalueRef TRec) (Copied 0) (Copied 1)
     \<lparr>objs = [Some (5, ''five''), Some (3, ''three'')], world = ()\<rparr> =
     Inr (Ref 2, [],
          \<lparr>objs = [Some (5, ''five''), Some (3, ''three''), None, None], world = ()\<rparr>) \<and>
   objs (destroy_all recs []
          \<lparr>objs = [Some (5, ''five''), Some (3, ''three''), None, None], world = ()\<rparr>) =
     [Some (5, ''five''), Some (3, ''three'')] @ [None, None]"
proof -
  let ?st = "\<lparr>objs = [Some (5, ''five''), Some (3, ''three'')], world = ()\<rparr>"
  let ?st' = "\<lparr>objs = [Some (5, ''five''), Some (3, ''three''), None, None], world = ()\<rparr>"
  have call:
    "max_call recs UntilReturn TRec TRec key_less_op (LvalueRef TRec) (Copied 0) (Copied 1) ?st =
       Inr (Ref 2, [], ?st')"
    by (simp add: call_defs recs_ops key_less_op_def key_less_def int_less_def)
  have x: "copied (Copied 0 :: rvalue arg)" and y: "copied (Copied 1 :: rvalue arg)"
    by simp_all
  from max_call_effects [OF recs_instance call x y]
  have "objs (destroy_all recs [] ?st') = objs ?st @ [None, None]"
    by blast
  with effect_free_recs x y call recs_instance [of UntilReturn] show ?thesis
    by simp
qed

text \<open>
  A call can have an effect: the comparison of a \<open>double\<close> that is not a number raises
  \<open>FE_INVALID\<close>, which was clear before the call.
\<close>

theorem max_nan_raises_invalid:
  "instantiate_max arith UntilReturn TInt TDouble =
     Some (max_call arith UntilReturn TInt TDouble arith_less_op (ByValue TDouble)) \<and>
   max_call arith UntilReturn TInt TDouble arith_less_op (ByValue TDouble)
     (Temp (IntV 4)) (Temp (DoubleV NaN)) \<lparr>objs = [], world = False\<rparr> =
     Inr (Val (DoubleV NaN), [], \<lparr>objs = [None, None], world = True\<rparr>)"
  by (simp add: arith_int_double)
    (simp add: call_defs arith_ops arith_less_op_def int_to_double_def)

text \<open>
  An argument that is moved from is changed by the call: the move constructor leaves
  the object of the caller with an empty text.
\<close>

lemma max_moved_argument_changes:
  "bind_params recs TRec TRec (Moved 0) (Copied 1)
     \<lparr>objs = [Some (5, ''five''), Some (3, ''three'')], world = ()\<rparr> =
     Inr (2, 3, \<lparr>objs = [Some (5, ''''), Some (3, ''three''), Some (5, ''five''),
                          Some (3, ''three'')], world = ()\<rparr>)"
  by (simp add: bind_params_def init_param_def create_def load_def recs_ops pure_effect_def)

text \<open>
  C10. The claim is that the result of \<open>max(x, y)\<close> on one type is an upper bound of
  both arguments and one of the two. The call \<open>max(8, -3)\<close> on two \<open>int\<close> returns a
  reference to the parameter \<open>a\<close>; where parameters are destroyed at the return, the
  caller that reads the result reads an object whose lifetime has ended, and no value
  that is bounded below by \<open>8\<close>.
\<close>

theorem max_8_minus3_returns_dead_reference:
  "instantiate_max arith UntilReturn TInt TInt =
     Some (max_call arith UntilReturn TInt TInt arith_less_op (LvalueRef TInt)) \<and>
   max_call arith UntilReturn TInt TInt arith_less_op (LvalueRef TInt)
     (Temp (IntV 8)) (Temp (IntV (- 3))) \<lparr>objs = [], world = False\<rparr> =
     Inr (Ref 0, [], \<lparr>objs = [None, None], world = False\<rparr>) \<and>
   read_result \<lparr>objs = [None, None], world = False\<rparr> (Ref 0 :: cvalue result) =
     Inl OutOfLifetime"
  by (simp add: arith_int_int) (simp add: call_defs arith_ops arith_less_op_def int_less_def)

end
